theory Spec2Isabelle
  imports Main "HOL-Library.Finite_Map"
begin

section \<open>JavaScript values and objects\<close>

text \<open>
  The two source files are TypeScript: \<^verbatim>\<open>src/utils/form.ts\<close> (the form hook
  \<^verbatim>\<open>useAppForm\<close> and the accessors \<^verbatim>\<open>formHasError\<close>, \<^verbatim>\<open>formGetError\<close>) and
  \<^verbatim>\<open>src/layout/PublicLayout.tsx\<close> (navigation lists and the drawer state).

  A plain object used as a dictionary is a finite map from the names of its own properties
  to their values; the insertion order of keys is not kept, since the code only ever
  counts keys. Spreading, \<^verbatim>\<open>Object.keys\<close> and a computed key in an object literal see own
  properties only; a plain read \<^verbatim>\<open>x[k]\<close> also finds the members that every object literal
  inherits from \<^verbatim>\<open>Object.prototype\<close> (see \<open>get_property\<close> below).
  A property or variable that may hold \<^verbatim>\<open>undefined\<close> or \<^verbatim>\<open>null\<close> instead of an object
  has an \<open>option\<close> type, \<open>None\<close> standing for the missing object.
\<close>

type_synonym 'a obj = "(string, 'a) fmap"

text \<open>The values a form field, or the result of \<^verbatim>\<open>formGetError\<close>, can hold.\<close>

datatype prim = Undefined | Null | Bool bool | Str string

text \<open>
  An argument as a caller of \<^verbatim>\<open>useAppForm\<close> can pass it at run time, whatever the
  TypeScript annotation says; \<open>'o\<close> is what an object carries. Arrays are objects.
\<close>

datatype 'o jsarg =
  ArgUndefined | ArgNull | ArgBool bool | ArgNum int | ArgStr string | ArgFun | ArgObj 'o

text \<open>\<^verbatim>\<open>!x\<close>: the falsy values.\<close>

fun falsy :: "'o jsarg \<Rightarrow> bool" where
  "falsy ArgUndefined = True"
| "falsy ArgNull = True"
| "falsy (ArgBool b) = (\<not> b)"
| "falsy (ArgNum n) = (n = 0)"
| "falsy (ArgStr s) = (s = [])"
| "falsy ArgFun = False"
| "falsy (ArgObj x) = False"

text \<open>\<^verbatim>\<open>typeof x\<close>; note that \<^verbatim>\<open>typeof null\<close> is \<^verbatim>\<open>'object'\<close>.\<close>

fun typeof :: "'o jsarg \<Rightarrow> string" where
  "typeof ArgUndefined = ''undefined''"
| "typeof ArgNull = ''object''"
| "typeof (ArgBool b) = ''boolean''"
| "typeof (ArgNum n) = ''number''"
| "typeof (ArgStr s) = ''string''"
| "typeof ArgFun = ''function''"
| "typeof (ArgObj x) = ''object''"

text \<open>
  \<^verbatim>\<open>{...x}\<close> copies the own properties of \<^verbatim>\<open>x\<close>, and none when \<^verbatim>\<open>x\<close> is
  \<^verbatim>\<open>undefined\<close> or \<^verbatim>\<open>null\<close>.
\<close>

definition spread :: "'a obj option \<Rightarrow> 'a obj" where
  "spread x = (case x of None \<Rightarrow> fmempty | Some m \<Rightarrow> m)"

text \<open>\<^verbatim>\<open>x || {}\<close> and \<^verbatim>\<open>x ?? {}\<close>, for \<^verbatim>\<open>x\<close> an object, \<^verbatim>\<open>undefined\<close> or \<^verbatim>\<open>null\<close>.\<close>

definition or_empty :: "'a obj option \<Rightarrow> 'a obj" where
  "or_empty x = (case x of None \<Rightarrow> fmempty | Some m \<Rightarrow> m)"

text \<open>\<^verbatim>\<open>Object.keys(x).length\<close>.\<close>

definition keys_length :: "'a obj \<Rightarrow> nat" where
  "keys_length m = fcard (fmdom m)"

text \<open>
  A computed property key \<^verbatim>\<open>[name]\<close>: a string is the key itself, \<^verbatim>\<open>undefined\<close>
  becomes the key \<^verbatim>\<open>'undefined'\<close>.
\<close>

definition property_key :: "string option \<Rightarrow> string" where
  "property_key k = (case k of None \<Rightarrow> ''undefined'' | Some n \<Rightarrow> n)"

datatype js_error = TypeError | Error string

text \<open>
  The names every plain object inherits from \<^verbatim>\<open>Object.prototype\<close> in a browser: the
  members of the language standard and of its annex for web browsers. Each is a function,
  or for \<^verbatim>\<open>__proto__\<close> the prototype object itself: a truthy value without a property
  \<^verbatim>\<open>0\<close>.
\<close>

definition OBJECT_PROTOTYPE_KEYS :: "string list" where
  "OBJECT_PROTOTYPE_KEYS =
     [''constructor'', ''hasOwnProperty'', ''isPrototypeOf'', ''propertyIsEnumerable'',
      ''toLocaleString'', ''toString'', ''valueOf'', ''__proto__'',
      ''__defineGetter__'', ''__defineSetter__'', ''__lookupGetter__'', ''__lookupSetter__'']"

text \<open>
  The read \<^verbatim>\<open>x[k]\<close> on an object \<^verbatim>\<open>x\<close>: the own property when there is one, else the
  inherited member when \<^verbatim>\<open>k\<close> names one, else \<^verbatim>\<open>undefined\<close>.
\<close>

datatype 'a property = Own 'a | Inherited | Absent

definition get_property :: "'a obj \<Rightarrow> string \<Rightarrow> 'a property" where
  "get_property x k =
     (case fmlookup x k of
        Some v \<Rightarrow> Own v
      | None \<Rightarrow> if k \<in> set OBJECT_PROTOTYPE_KEYS then Inherited else Absent)"

text \<open>
  Whether what a read found is truthy, given which own values are: an inherited member
  is, \<^verbatim>\<open>undefined\<close> is not.
\<close>

fun truthy :: "('a \<Rightarrow> bool) \<Rightarrow> 'a property \<Rightarrow> bool" where
  "truthy own (Own v) = own v"
| "truthy own Inherited = True"
| "truthy own Absent = False"

section \<open>The form state (\<^verbatim>\<open>src/utils/form.ts\<close>)\<close>

text \<open>
  \<^verbatim>\<open>interface FormState { values: object; touched?: object; errors?: object }\<close>, with the
  entries the comments give them: input values, booleans, arrays of strings.
\<close>

record FormState =
  "values" :: "prim obj option"
  touched :: "bool obj option"
  errors :: "string list obj option"

definition DEFAULT_FORM_STATE :: FormState where
  "DEFAULT_FORM_STATE = \<lparr>values = Some fmempty, touched = Some fmempty, errors = Some fmempty\<rparr>"

text \<open>
  \<^verbatim>\<open>Boolean(formState.touched[fieldName] && formState.errors[fieldName])\<close>. Reading a
  property of a missing object throws a \<^verbatim>\<open>TypeError\<close>; \<^verbatim>\<open>&&\<close> reads the errors only when
  the touched entry is truthy; an array, also an empty one, is truthy.
\<close>

definition formHasError :: "FormState \<Rightarrow> string \<Rightarrow> js_error + bool" where
  "formHasError formState fieldName =
     (case touched formState of
        None \<Rightarrow> Inl TypeError
      | Some t \<Rightarrow>
          if truthy (\<lambda>b. b) (get_property t fieldName)
          then (case errors formState of
                  None \<Rightarrow> Inl TypeError
                | Some e \<Rightarrow> Inr (truthy (\<lambda>msgs. True) (get_property e fieldName)))
          else Inr False)"

text \<open>
  \<^verbatim>\<open>formHasError(formState, fieldName) ? formState.errors[fieldName]?.[0] : null\<close>.
  Index 0 of an empty array, and of an inherited member, is \<^verbatim>\<open>undefined\<close>.
\<close>

definition formGetError :: "FormState \<Rightarrow> string \<Rightarrow> js_error + prim" where
  "formGetError formState fieldName =
     (case formHasError formState fieldName of
        Inl err \<Rightarrow> Inl err
      | Inr True \<Rightarrow>
          (case errors formState of
             None \<Rightarrow> Inl TypeError
           | Some e \<Rightarrow>
               Inr (case get_property e fieldName of
                      Own [] \<Rightarrow> Undefined
                    | Own (m # ms) \<Rightarrow> Str m
                    | Inherited \<Rightarrow> Undefined
                    | Absent \<Rightarrow> Undefined))
      | Inr False \<Rightarrow> Inr Null)"

subsection \<open>Construction\<close>

text \<open>
  The parameter checks of \<^verbatim>\<open>useAppForm\<close> and the initial value handed to \<^verbatim>\<open>useState\<close>:
  \<^verbatim>\<open>{ ...DEFAULT_FORM_STATE, values: initialValues }\<close>. The default \<^verbatim>\<open>initialValues = {}\<close>
  applies when the argument is \<^verbatim>\<open>undefined\<close> only. \<open>Inl\<close> is the thrown error: no state
  exists then.
\<close>

definition useAppForm :: "'s jsarg \<Rightarrow> prim obj jsarg \<Rightarrow> js_error + FormState" where
  "useAppForm validationSchema initialValuesArg =
     (let initialValues =
            (case initialValuesArg of ArgUndefined \<Rightarrow> ArgObj fmempty | x \<Rightarrow> x)
      in if falsy validationSchema
         then Inl (Error ''useAppForm() - the option `validationSchema` is required'')
         else if typeof validationSchema \<noteq> ''object''
         then Inl (Error ''useAppForm() - the option `validationSchema` should be an object'')
         else if typeof initialValues \<noteq> ''object''
         then Inl (Error ''useAppForm() - the option `initialValues` should be an object'')
         else Inr (DEFAULT_FORM_STATE
                     \<lparr>values := (case initialValues of ArgObj m \<Rightarrow> Some m | x \<Rightarrow> None)\<rparr>))"

subsection \<open>Revalidation\<close>

text \<open>
  \<^verbatim>\<open>validate\<close> is the third-party validate.js, a parameter \<open>validate\<close> here: it takes
  the values and the schema and returns \<^verbatim>\<open>undefined\<close> (\<open>None\<close>) or an object of message
  lists. The effect computes the errors from the values of the rendered state and merges
  them into the state current when the update is applied:
  \<^verbatim>\<open>setFormState((currentFormState) => ({ ...currentFormState, errors: errors || {} }))\<close>.
\<close>

type_synonym 's validator = "prim obj option \<Rightarrow> 's \<Rightarrow> string list obj option"

definition validation_effect ::
  "'s validator \<Rightarrow> 's \<Rightarrow> FormState \<Rightarrow> FormState \<Rightarrow> FormState" where
  "validation_effect validate validationSchema formState currentFormState =
     (let errs = validate (values formState) validationSchema
      in currentFormState\<lparr>errors := Some (or_empty errs)\<rparr>)"

text \<open>The revalidation step: the effect runs on the committed state and updates it.\<close>

definition revalidate :: "'s validator \<Rightarrow> 's \<Rightarrow> FormState \<Rightarrow> FormState" where
  "revalidate validate validationSchema formState =
     validation_effect validate validationSchema formState formState"

subsection \<open>The change handler\<close>

text \<open>
  The properties of \<^verbatim>\<open>event.target\<close> that the handler reads through \<^verbatim>\<open>?.\<close>, each
  possibly \<^verbatim>\<open>undefined\<close>, like the target itself.
\<close>

record HTMLInputElement =
  name :: "string option"
  type :: "string option"
  checked :: "bool option"
  "value" :: "string option"

record ChangeEvent =
  target :: "HTMLInputElement option"

definition prim_of_bool :: "bool option \<Rightarrow> prim" where
  "prim_of_bool b = (case b of None \<Rightarrow> Undefined | Some c \<Rightarrow> Bool c)"

definition prim_of_string :: "string option \<Rightarrow> prim" where
  "prim_of_string s = (case s of None \<Rightarrow> Undefined | Some v \<Rightarrow> Str v)"

text \<open>
  \<^verbatim>\<open>setFormState((formState) => ({ ...formState,
      values: { ...formState.values, [name]: value },
      touched: { ...formState.touched, [name]: true } }))\<close>
\<close>

definition onFieldChange :: "ChangeEvent \<Rightarrow> FormState \<Rightarrow> FormState" where
  "onFieldChange event formState =
     (let name' = Option.bind (target event) name;
          value' = (if Option.bind (target event) type = Some ''checkbox''
                    then prim_of_bool (Option.bind (target event) checked)
                    else prim_of_string (Option.bind (target event) value))
      in formState
           \<lparr>values := Some (fmupd (property_key name') value' (spread (values formState))),
            touched := Some (fmupd (property_key name') True (spread (touched formState)))\<rparr>)"

subsection \<open>Whole-form predicates\<close>

text \<open>\<^verbatim>\<open>Object.keys(formState?.errors ?? {}).length < 1\<close>\<close>

definition isFormValid :: "FormState \<Rightarrow> bool" where
  "isFormValid formState = (keys_length (or_empty (errors formState)) < 1)"

text \<open>\<^verbatim>\<open>Object.keys(formState?.touched ?? {}).length > 0\<close>\<close>

definition isFormTouched :: "FormState \<Rightarrow> bool" where
  "isFormTouched formState = (keys_length (or_empty (touched formState)) > 0)"

subsection \<open>The operations of a form lifetime\<close>

text \<open>
  After the hook is set up, the state changes by field-change events and by revalidation
  steps only (the raw setter that the hook also returns is left to the caller).
\<close>

datatype form_op = FieldChange ChangeEvent | Revalidate

fun apply_op :: "'s validator \<Rightarrow> 's \<Rightarrow> FormState \<Rightarrow> form_op \<Rightarrow> FormState" where
  "apply_op validate validationSchema formState (FieldChange event) =
     onFieldChange event formState"
| "apply_op validate validationSchema formState Revalidate =
     revalidate validate validationSchema formState"

definition apply_ops ::
  "'s validator \<Rightarrow> 's \<Rightarrow> FormState \<Rightarrow> form_op list \<Rightarrow> FormState" where
  "apply_ops validate validationSchema formState ops =
     foldl (apply_op validate validationSchema) formState ops"

text \<open>
  The effect has \<^verbatim>\<open>formState.values\<close> among its dependencies: it runs after the mount
  and after every change event, each of which builds a new values object.
\<close>

definition mount :: "'s validator \<Rightarrow> 's \<Rightarrow> FormState \<Rightarrow> FormState" where
  "mount validate validationSchema formState = revalidate validate validationSchema formState"

fun run_events ::
  "'s validator \<Rightarrow> 's \<Rightarrow> FormState \<Rightarrow> ChangeEvent list \<Rightarrow> FormState" where
  "run_events validate validationSchema formState [] = formState"
| "run_events validate validationSchema formState (event # events) =
     run_events validate validationSchema
       (revalidate validate validationSchema (onFieldChange event formState)) events"

subsection \<open>The accessors as the specification words them\<close>



section \<open>The public layout (\<^verbatim>\<open>src/layout/PublicLayout.tsx\<close>)\<close>

record LinkToPage =
  title :: string
  path :: string
  icon :: string

text \<open>
  The two lists after the module is evaluated, as functions of
  \<^verbatim>\<open>process.env.REACT_APP_DEBUG\<close> (\<open>None\<close> when the variable is not set). The module
  pushes the debug entry to \<^verbatim>\<open>SIDE_BAR_ITEMS\<close> when the variable is \<^verbatim>\<open>'true'\<close>; it has
  no such statement for \<^verbatim>\<open>BOTTOM_BAR_ITEMS\<close>.
\<close>

definition DEBUG_TOOLS_ITEM :: LinkToPage where
  "DEBUG_TOOLS_ITEM = \<lparr>title = ''[Debug Tools]'', path = ''/dev'', icon = ''settings''\<rparr>"

definition SIDE_BAR_ITEMS :: "string option \<Rightarrow> LinkToPage list" where
  "SIDE_BAR_ITEMS REACT_APP_DEBUG =
     (let items =
            [\<lparr>title = ''Log In'', path = ''/auth/login'', icon = ''login''\<rparr>,
             \<lparr>title = ''Sign Up'', path = ''/auth/signup'', icon = ''signup''\<rparr>,
             \<lparr>title = ''About'', path = ''/about'', icon = ''info''\<rparr>]
      in if REACT_APP_DEBUG = Some ''true'' then items @ [DEBUG_TOOLS_ITEM] else items)"

definition BOTTOM_BAR_ITEMS :: "string option \<Rightarrow> LinkToPage list" where
  "BOTTOM_BAR_ITEMS REACT_APP_DEBUG =
     [\<lparr>title = ''Log In'', path = ''/auth/login'', icon = ''login''\<rparr>,
      \<lparr>title = ''Sign Up'', path = ''/auth/signup'', icon = ''signup''\<rparr>,
      \<lparr>title = ''About'', path = ''/about'', icon = ''info''\<rparr>]"

text \<open>The three entries both list literals start with, for the statements below.\<close>

definition FIXED_ITEMS :: "LinkToPage list" where
  "FIXED_ITEMS =
     [\<lparr>title = ''Log In'', path = ''/auth/login'', icon = ''login''\<rparr>,
      \<lparr>title = ''Sign Up'', path = ''/auth/signup'', icon = ''signup''\<rparr>,
      \<lparr>title = ''About'', path = ''/about'', icon = ''info''\<rparr>]"

text \<open>
  The drawer: \<^verbatim>\<open>const [sideBarVisible, setSideBarVisible] = useState(false)\<close>.
  \<open>sideBarVisible\<close> is the value the latest render got from \<^verbatim>\<open>useState\<close>; the handlers
  that render built have captured it. The setter does not change it: the update is queued
  until the next render. Two further fields only observe: every setter call so far, and
  how many renders found the state changed.
\<close>

record PublicLayoutState =
  sideBarVisible :: bool
  queued :: "bool list"
  setSideBarVisible_calls :: "bool list"
  transitions :: nat

definition setSideBarVisible :: "bool \<Rightarrow> PublicLayoutState \<Rightarrow> PublicLayoutState" where
  "setSideBarVisible v s =
     s\<lparr>queued := queued s @ [v], setSideBarVisible_calls := setSideBarVisible_calls s @ [v]\<rparr>"

text \<open>
  \<^verbatim>\<open>if (!sideBarVisible) setSideBarVisible(true)\<close>, in a closure over the
  \<^verbatim>\<open>sideBarVisible\<close> of the render that built it: the first argument.
\<close>

definition onSideBarOpen :: "bool \<Rightarrow> PublicLayoutState \<Rightarrow> PublicLayoutState" where
  "onSideBarOpen captured s = (if \<not> captured then setSideBarVisible True s else s)"

text \<open>\<^verbatim>\<open>if (sideBarVisible) setSideBarVisible(false)\<close>, a closure likewise.\<close>

definition onSideBarClose :: "bool \<Rightarrow> PublicLayoutState \<Rightarrow> PublicLayoutState" where
  "onSideBarClose captured s = (if captured then setSideBarVisible False s else s)"

text \<open>
  A render applies the queued updates in order (each is a plain value, so the last one
  stays) and builds new handlers over the result.
\<close>

definition render :: "PublicLayoutState \<Rightarrow> PublicLayoutState" where
  "render s =
     (let v = (if queued s = [] then sideBarVisible s else last (queued s))
      in s\<lparr>sideBarVisible := v, queued := [],
           transitions := (if v \<noteq> sideBarVisible s then transitions s + 1 else transitions s)\<rparr>)"

text \<open>
  What can happen to the layout: the handler of the latest render is invoked, or the
  layout renders.
\<close>

datatype layout_step = InvokeOpen | InvokeClose | Render

fun do_step :: "PublicLayoutState \<Rightarrow> layout_step \<Rightarrow> PublicLayoutState" where
  "do_step s InvokeOpen = onSideBarOpen (sideBarVisible s) s"
| "do_step s InvokeClose = onSideBarClose (sideBarVisible s) s"
| "do_step s Render = render s"

definition do_steps :: "PublicLayoutState \<Rightarrow> layout_step list \<Rightarrow> PublicLayoutState" where
  "do_steps s steps = foldl do_step s steps"

section \<open>Example inputs\<close>

text \<open>Concrete events, states and a validator on which the theorems below are exercised.\<close>

definition email_x :: ChangeEvent where
  "email_x = \<lparr>target = Some \<lparr>name = Some ''email'', type = Some ''text'',
                                checked = Some False, value = Some ''x''\<rparr>\<rparr>"

definition password_p :: ChangeEvent where
  "password_p = \<lparr>target = Some \<lparr>name = Some ''password'', type = Some ''password'',
                                   checked = Some False, value = Some ''p''\<rparr>\<rparr>"

definition with_password :: FormState where
  "with_password =
     \<lparr>values = Some (fmupd ''password'' (Str ''p'') fmempty),
      touched = Some (fmupd ''password'' True fmempty),
      errors = Some (fmupd ''email'' [''Email is required''] fmempty)\<rparr>"




definition no_errors_field :: FormState where
  "no_errors_field = \<lparr>values = Some fmempty, touched = Some fmempty, errors = None\<rparr>"

definition filled_in :: FormState where
  "filled_in =
     \<lparr>values = Some (fmupd ''email'' (Str ''x'') fmempty),
      touched = Some (fmupd ''email'' True fmempty),
      errors = None\<rparr>"

text \<open>A validator in the manner of a presence rule on \<open>email\<close>; its schema carries nothing.\<close>

definition require_email :: "unit validator" where
  "require_email vals schema =
     (case fmlookup (spread vals) ''email'' of
        Some (Str (c # cs)) \<Rightarrow> None
      | _ \<Rightarrow> Some (fmupd ''email'' [''Email is required''] fmempty))"

definition initial_layout :: PublicLayoutState where
  "initial_layout =
     \<lparr>sideBarVisible = False, queued = [], setSideBarVisible_calls = [], transitions = 0\<rparr>"

definition open_layout :: PublicLayoutState where
  "open_layout =
     \<lparr>sideBarVisible = True, queued = [], setSideBarVisible_calls = [True], transitions = 1\<rparr>"

section \<open>Helper facts\<close>

lemma revalidate_fields:
  "errors (revalidate validate sc s) = Some (or_empty (validate (values s) sc))"
  "values (revalidate validate sc s) = values s"
  "touched (revalidate validate sc s) = touched s"
  by (simp_all add: revalidate_def validation_effect_def)

lemma onFieldChange_touched:
  "touched (onFieldChange event s)
     = Some (fmupd (property_key (Option.bind (target event) name)) True (spread (touched s)))"
  by (simp add: onFieldChange_def Let_def)

lemma keys_length_less_1: "keys_length m < 1 \<longleftrightarrow> m = fmempty"
proof -
  have "keys_length m < 1 \<longleftrightarrow> fmdom m = {||}"
    by (simp add: keys_length_def)
  also have "\<dots> \<longleftrightarrow> m = fmempty"
    by (cases m rule: fmap_exhaust) auto
  finally show ?thesis .
qed

section \<open>The change handler\<close>

text \<open>
  Claim C1. A change event on a control named \<open>n\<close> stores the checked boolean at
  \<open>values[n]\<close> when the control's type is \<open>checkbox\<close> and the string value otherwise,
  and sets \<open>touched[n]\<close> to true; when the name reads \<open>undefined\<close> the entry goes under
  the key \<open>undefined\<close>.
\<close>

theorem onFieldChange_stores:
  fixes el :: HTMLInputElement and formState :: FormState
  defines "s' \<equiv> onFieldChange \<lparr>target = Some el\<rparr> formState"
  defines "k \<equiv> (case name el of None \<Rightarrow> ''undefined'' | Some n \<Rightarrow> n)"
  shows "(\<exists>vs. values s' = Some vs \<and>
              fmlookup vs k =
                Some (if type el = Some ''checkbox''
                      then (case checked el of None \<Rightarrow> Undefined | Some c \<Rightarrow> Bool c)
                      else (case value el of None \<Rightarrow> Undefined | Some v \<Rightarrow> Str v)))
       \<and> (\<exists>ts. touched s' = Some ts \<and> fmlookup ts k = Some True)"
  unfolding s'_def k_def
  by (simp add: onFieldChange_def property_key_def prim_of_bool_def prim_of_string_def
        split: option.splits)

theorem onFieldChange_stores_witness:
  "(\<exists>vs. values (onFieldChange
              \<lparr>target = Some \<lparr>name = Some ''email'', type = Some ''text'',
                                checked = Some False, value = Some ''x''\<rparr>\<rparr>
              DEFAULT_FORM_STATE) = Some vs \<and> fmlookup vs ''email'' = Some (Str ''x''))
   \<and> (\<exists>ts. touched (onFieldChange
              \<lparr>target = Some \<lparr>name = Some ''email'', type = Some ''text'',
                                checked = Some False, value = Some ''x''\<rparr>\<rparr>
              DEFAULT_FORM_STATE) = Some ts \<and> fmlookup ts ''email'' = Some True)
   \<and> (\<exists>vs. values (onFieldChange
              \<lparr>target = Some \<lparr>name = Some ''subscribe'', type = Some ''checkbox'',
                                checked = Some True, value = Some ''on''\<rparr>\<rparr>
              DEFAULT_FORM_STATE) = Some vs \<and> fmlookup vs ''subscribe'' = Some (Bool True))
   \<and> (\<exists>vs. values (onFieldChange
              \<lparr>target = Some \<lparr>name = None, type = Some ''text'',
                                checked = Some False, value = Some ''x''\<rparr>\<rparr>
              DEFAULT_FORM_STATE) = Some vs \<and> fmlookup vs ''undefined'' = Some (Str ''x''))"
  using
    onFieldChange_stores [of "\<lparr>name = Some ''email'', type = Some ''text'',
                                checked = Some False, value = Some ''x''\<rparr>" DEFAULT_FORM_STATE]
    onFieldChange_stores [of "\<lparr>name = Some ''subscribe'', type = Some ''checkbox'',
                                checked = Some True, value = Some ''on''\<rparr>" DEFAULT_FORM_STATE]
    onFieldChange_stores [of "\<lparr>name = None, type = Some ''text'',
                                checked = Some False, value = Some ''x''\<rparr>" DEFAULT_FORM_STATE]
  by auto

text \<open>
  Claim C5. A change event on the field named \<open>n\<close> leaves the values and touched entries
  of every other field as they were, and the errors mapping as a whole. The entries are
  read through the spread, so a state whose mapping is missing has none.
\<close>

theorem onFieldChange_frame:
  assumes "f \<noteq> property_key (Option.bind (target event) name)"
  shows "fmlookup (spread (values (onFieldChange event formState))) f
           = fmlookup (spread (values formState)) f
       \<and> fmlookup (spread (touched (onFieldChange event formState))) f
           = fmlookup (spread (touched formState)) f
       \<and> errors (onFieldChange event formState) = errors formState"
  using assms by (simp add: onFieldChange_def Let_def spread_def)

theorem onFieldChange_frame_witness:
  "fmlookup (spread (values (onFieldChange email_x with_password))) ''password'' = Some (Str ''p'')
   \<and> fmlookup (spread (touched (onFieldChange email_x with_password))) ''password'' = Some True
   \<and> errors (onFieldChange email_x with_password)
        = Some (fmupd ''email'' [''Email is required''] fmempty)"
  using onFieldChange_frame [of "''password''" email_x with_password]
  by (simp add: email_x_def with_password_def property_key_def spread_def)

section \<open>Construction\<close>

text \<open>What the parameter checks of \<^verbatim>\<open>useAppForm\<close> reject, over all arguments.\<close>

lemma useAppForm_throws_iff:
  "(\<exists>err. useAppForm validationSchema initialValues = Inl err) \<longleftrightarrow>
     falsy validationSchema \<or> typeof validationSchema \<noteq> ''object''
     \<or> (initialValues \<noteq> ArgUndefined \<and> typeof initialValues \<noteq> ''object'')"
  by (cases validationSchema; cases initialValues; simp add: useAppForm_def Let_def)

text \<open>
  Claim C4. \<^verbatim>\<open>useAppForm\<close> should throw when \<^verbatim>\<open>initialValues\<close> is given and is not an
  object. With a schema object and \<^verbatim>\<open>initialValues: null\<close> it does not: \<^verbatim>\<open>typeof null\<close>
  is \<^verbatim>\<open>'object'\<close>, the third check passes, and the state is created with \<^verbatim>\<open>null\<close> for
  its values. (The schema check before it does reject \<^verbatim>\<open>null\<close>, as a falsy value.)
\<close>

theorem useAppForm_accepts_null_initialValues:
  "useAppForm (ArgObj schema) ArgNull
     = Inr \<lparr>values = None, touched = Some fmempty, errors = Some fmempty\<rparr>"
  by (simp add: useAppForm_def DEFAULT_FORM_STATE_def)

text \<open>
  Claim C6. For a schema object and an initial-values object, or none, the state made at
  construction has the initial values (the empty mapping when there are none) and empty
  touched and errors mappings.
\<close>

theorem useAppForm_initial_state:
  "useAppForm (ArgObj schema) (ArgObj initialValues)
     = Inr \<lparr>values = Some initialValues, touched = Some fmempty, errors = Some fmempty\<rparr>
   \<and> useAppForm (ArgObj schema) ArgUndefined
     = Inr \<lparr>values = Some fmempty, touched = Some fmempty, errors = Some fmempty\<rparr>"
  by (simp add: useAppForm_def DEFAULT_FORM_STATE_def)

theorem useAppForm_initial_state_witness:
  "useAppForm (ArgObj ()) (ArgObj (fmupd ''name'' (Str ''John Doe'') fmempty))
     = Inr \<lparr>values = Some (fmupd ''name'' (Str ''John Doe'') fmempty),
            touched = Some fmempty, errors = Some fmempty\<rparr>
   \<and> useAppForm (ArgObj ()) ArgUndefined = Inr DEFAULT_FORM_STATE"
  using useAppForm_initial_state [of "()" "fmupd ''name'' (Str ''John Doe'') fmempty"]
  by (simp add: DEFAULT_FORM_STATE_def)

section \<open>Revalidation\<close>

lemma run_events_errors:
  "errors s = Some (or_empty (validate (values s) sc)) \<Longrightarrow>
   errors (run_events validate sc s events)
     = Some (or_empty (validate (values (run_events validate sc s events)) sc))"
  by (induction events arbitrary: s) (simp_all add: revalidate_fields)

text \<open>
  Claim C2. After a revalidation step the errors mapping is the validator's result for
  the schema and the current values (the empty mapping when the result is \<open>undefined\<close>),
  whatever the errors were before, and values and touched are as they were. So it is after
  the mount and after every change event of a run.
\<close>

theorem revalidate_errors:
  "errors (revalidate validate sc s) = Some (or_empty (validate (values s) sc))
   \<and> values (revalidate validate sc s) = values s
   \<and> touched (revalidate validate sc s) = touched s
   \<and> errors (run_events validate sc (mount validate sc s0) events)
       = Some (or_empty
           (validate (values (run_events validate sc (mount validate sc s0) events)) sc))"
  by (simp add: revalidate_fields run_events_errors mount_def)

theorem revalidate_errors_witness:
  "errors (mount require_email () DEFAULT_FORM_STATE)
     = Some (fmupd ''email'' [''Email is required''] fmempty)
   \<and> errors (run_events require_email () (mount require_email () DEFAULT_FORM_STATE)
        [password_p]) = Some (fmupd ''email'' [''Email is required''] fmempty)
   \<and> errors (run_events require_email () (mount require_email () DEFAULT_FORM_STATE)
        [password_p, email_x]) = Some fmempty"
proof -
  have v0: "values (mount require_email () DEFAULT_FORM_STATE) = Some fmempty"
    by (simp add: mount_def revalidate_fields DEFAULT_FORM_STATE_def)
  have v1: "values (run_events require_email () (mount require_email () DEFAULT_FORM_STATE)
        [password_p]) = Some (fmupd ''password'' (Str ''p'') fmempty)"
    by (simp add: revalidate_fields v0 onFieldChange_def password_p_def property_key_def
        prim_of_string_def spread_def)
  have v2: "values (run_events require_email () (mount require_email () DEFAULT_FORM_STATE)
        [password_p, email_x])
      = Some (fmupd ''email'' (Str ''x'') (fmupd ''password'' (Str ''p'') fmempty))"
    by (simp add: revalidate_fields v0 onFieldChange_def password_p_def email_x_def
        property_key_def prim_of_string_def spread_def)
  show ?thesis
    using revalidate_errors [of require_email "()" DEFAULT_FORM_STATE DEFAULT_FORM_STATE "[]"]
      revalidate_errors [of require_email "()" DEFAULT_FORM_STATE DEFAULT_FORM_STATE
        "[password_p]"]
      revalidate_errors [of require_email "()" DEFAULT_FORM_STATE DEFAULT_FORM_STATE
        "[password_p, email_x]"]
    unfolding v0 v1 v2
    by (simp add: require_email_def spread_def or_empty_def DEFAULT_FORM_STATE_def mount_def)
qed

text \<open>
  Claim C10. After a revalidation step the errors field holds a mapping, the empty one
  when the validator returns \<open>undefined\<close>; \<^verbatim>\<open>isFormValid\<close> is true exactly when the
  validator's result has no entry (it is \<open>undefined\<close>, or an object without keys, which
  validate.js never returns); and with a touched mapping present neither accessor fails
  on the errors.
\<close>

theorem revalidate_errors_defined:
  "(\<exists>e. errors (revalidate validate sc s) = Some e)
   \<and> (validate (values s) sc = None \<longrightarrow> errors (revalidate validate sc s) = Some fmempty)
   \<and> (isFormValid (revalidate validate sc s) \<longleftrightarrow>
        validate (values s) sc = None \<or> validate (values s) sc = Some fmempty)
   \<and> (validate (values s) sc \<noteq> Some fmempty \<longrightarrow>
        (isFormValid (revalidate validate sc s) \<longleftrightarrow> validate (values s) sc = None))
   \<and> (touched s \<noteq> None \<longrightarrow>
        formHasError (revalidate validate sc s) f \<noteq> Inl TypeError
        \<and> formGetError (revalidate validate sc s) f \<noteq> Inl TypeError)"
  using keys_length_less_1
  by (auto simp: revalidate_fields isFormValid_def or_empty_def formHasError_def
        formGetError_def split: option.splits sum.splits bool.splits)

theorem revalidate_errors_defined_witness:
  "errors (revalidate require_email () filled_in) = Some fmempty
   \<and> isFormValid (revalidate require_email () filled_in)
   \<and> \<not> isFormValid (revalidate require_email () no_errors_field)
   \<and> formHasError (revalidate require_email () filled_in) ''email'' \<noteq> Inl TypeError
   \<and> formGetError (revalidate require_email () no_errors_field) ''email'' \<noteq> Inl TypeError"
  using revalidate_errors_defined [of require_email "()" filled_in "''email''"]
    revalidate_errors_defined [of require_email "()" no_errors_field "''email''"]
  by (simp add: require_email_def filled_in_def no_errors_field_def spread_def)

section \<open>The error accessors\<close>




section \<open>Touched fields stay touched\<close>

lemma apply_op_touched_mono:
  assumes "fmlookup (spread (touched s)) f = Some True"
  shows "fmlookup (spread (touched (apply_op validate sc s x))) f = Some True"
  using assms by (cases x) (simp_all add: onFieldChange_touched revalidate_fields spread_def)

lemma apply_op_touched_keys:
  "fmdom (spread (touched s)) |\<subseteq>| fmdom (spread (touched (apply_op validate sc s x)))"
  by (cases x) (auto simp: onFieldChange_touched revalidate_fields spread_def)

lemma apply_ops_touched_mono:
  "fmlookup (spread (touched s)) f = Some True \<Longrightarrow>
   fmlookup (spread (touched (apply_ops validate sc s ops))) f = Some True"
  unfolding apply_ops_def
  by (induction ops arbitrary: s) (simp_all add: apply_op_touched_mono)

lemma apply_ops_touched_keys:
  "fmdom (spread (touched s)) |\<subseteq>| fmdom (spread (touched (apply_ops validate sc s ops)))"
  unfolding apply_ops_def
proof (induction ops arbitrary: s)
  case Nil
  show ?case by simp
next
  case (Cons x xs)
  have "fmdom (spread (touched s)) |\<subseteq>| fmdom (spread (touched (apply_op validate sc s x)))"
    by (rule apply_op_touched_keys)
  also have "\<dots> |\<subseteq>|
      fmdom (spread (touched (foldl (apply_op validate sc) (apply_op validate sc s x) xs)))"
    by (rule Cons.IH)
  finally show ?case by simp
qed

text \<open>
  Claim C7. Over any sequence of field-change events and revalidation steps, a field whose
  touched entry is true keeps it true, and no key leaves the touched mapping.
\<close>

theorem touched_only_grows:
  "(fmlookup (spread (touched s)) f = Some True \<longrightarrow>
      fmlookup (spread (touched (apply_ops validate sc s ops))) f = Some True)
   \<and> fmdom (spread (touched s)) |\<subseteq>| fmdom (spread (touched (apply_ops validate sc s ops)))"
  by (simp add: apply_ops_touched_mono apply_ops_touched_keys)

theorem touched_only_grows_witness:
  "fmlookup (spread (touched (onFieldChange email_x DEFAULT_FORM_STATE))) ''email'' = Some True
   \<and> fmlookup (spread (touched (apply_ops require_email ()
         (onFieldChange email_x DEFAULT_FORM_STATE)
         [Revalidate, FieldChange password_p, Revalidate, FieldChange email_x, Revalidate])))
       ''email'' = Some True"
  using touched_only_grows [of "onFieldChange email_x DEFAULT_FORM_STATE" "''email''"
      require_email "()"
      "[Revalidate, FieldChange password_p, Revalidate, FieldChange email_x, Revalidate]"]
  by (simp add: onFieldChange_touched email_x_def property_key_def spread_def)

section \<open>The drawer and the navigation lists\<close>

text \<open>
  Claim C8. A handler built by a render that saw the drawer open (closed) makes no setter
  call when asked to open (close) it: the state is as before. Two open invocations in a
  row on a closed drawer make the state change once, whether the layout renders between
  them (the second handler then sees the drawer open and calls nothing) or not (the same
  handler then calls the setter twice with \<open>true\<close>, and the render applies both);
  likewise for two close invocations from an open drawer.
\<close>

theorem drawer_idempotent:
  "onSideBarOpen True s = s
   \<and> onSideBarClose False s = s
   \<and> (sideBarVisible s \<longrightarrow> do_step s InvokeOpen = s)
   \<and> (\<not> sideBarVisible s \<longrightarrow> do_step s InvokeClose = s)
   \<and> (\<not> sideBarVisible s \<longrightarrow>
        sideBarVisible (do_steps s [InvokeOpen, Render, InvokeOpen, Render])
        \<and> transitions (do_steps s [InvokeOpen, Render, InvokeOpen, Render]) = transitions s + 1
        \<and> setSideBarVisible_calls (do_steps s [InvokeOpen, Render, InvokeOpen, Render])
            = setSideBarVisible_calls s @ [True]
        \<and> sideBarVisible (do_steps s [InvokeOpen, InvokeOpen, Render])
        \<and> transitions (do_steps s [InvokeOpen, InvokeOpen, Render]) = transitions s + 1
        \<and> setSideBarVisible_calls (do_steps s [InvokeOpen, InvokeOpen, Render])
            = setSideBarVisible_calls s @ [True, True])
   \<and> (sideBarVisible s \<longrightarrow>
        \<not> sideBarVisible (do_steps s [InvokeClose, Render, InvokeClose, Render])
        \<and> transitions (do_steps s [InvokeClose, Render, InvokeClose, Render]) = transitions s + 1
        \<and> setSideBarVisible_calls (do_steps s [InvokeClose, Render, InvokeClose, Render])
            = setSideBarVisible_calls s @ [False]
        \<and> \<not> sideBarVisible (do_steps s [InvokeClose, InvokeClose, Render])
        \<and> transitions (do_steps s [InvokeClose, InvokeClose, Render]) = transitions s + 1
        \<and> setSideBarVisible_calls (do_steps s [InvokeClose, InvokeClose, Render])
            = setSideBarVisible_calls s @ [False, False])"
  by (simp add: onSideBarOpen_def onSideBarClose_def setSideBarVisible_def render_def
        do_steps_def Let_def)

theorem drawer_idempotent_witness:
  "sideBarVisible (do_steps initial_layout [InvokeOpen, Render, InvokeOpen, Render])
   \<and> transitions (do_steps initial_layout [InvokeOpen, Render, InvokeOpen, Render]) = 1
   \<and> setSideBarVisible_calls (do_steps initial_layout [InvokeOpen, Render, InvokeOpen, Render])
       = [True]
   \<and> transitions (do_steps initial_layout [InvokeOpen, InvokeOpen, Render]) = 1
   \<and> setSideBarVisible_calls (do_steps initial_layout [InvokeOpen, InvokeOpen, Render])
       = [True, True]
   \<and> do_step open_layout InvokeOpen = open_layout
   \<and> transitions (do_steps open_layout [InvokeClose, Render, InvokeClose, Render]) = 2
   \<and> setSideBarVisible_calls (do_steps open_layout [InvokeClose, Render, InvokeClose, Render])
       = [True, False]"
proof -
  have closed: "\<not> sideBarVisible initial_layout"
    "setSideBarVisible_calls initial_layout = []" "transitions initial_layout = 0"
    by (simp_all add: initial_layout_def)
  have opened: "sideBarVisible open_layout"
    "setSideBarVisible_calls open_layout = [True]" "transitions open_layout = 1"
    by (simp_all add: open_layout_def)
  show ?thesis
    using drawer_idempotent [of initial_layout] drawer_idempotent [of open_layout]
    by (simp add: closed opened)
qed

text \<open>
  Against claim C9 as it is worded: with the debug variable set to \<open>true\<close> the side-bar
  list has the debug entry and the bottom-bar list has not; it is the three fixed entries.
\<close>

theorem bottom_bar_no_debug_counterexample:
  "DEBUG_TOOLS_ITEM \<in> set (SIDE_BAR_ITEMS (Some ''true''))
   \<and> DEBUG_TOOLS_ITEM \<notin> set (BOTTOM_BAR_ITEMS (Some ''true''))
   \<and> BOTTOM_BAR_ITEMS (Some ''true'') = FIXED_ITEMS"
  by (simp add: SIDE_BAR_ITEMS_def BOTTOM_BAR_ITEMS_def DEBUG_TOOLS_ITEM_def FIXED_ITEMS_def)

text \<open>
  Claim C9, amended. The side-bar list is the three fixed entries, followed by the debug
  entry exactly when the debug variable is \<open>true\<close>; the bottom-bar list is the three
  fixed entries whatever the variable is; with the variable not \<open>true\<close> both lists are
  the three fixed entries.
\<close>

theorem nav_items:
  "SIDE_BAR_ITEMS env
     = (if env = Some ''true'' then FIXED_ITEMS @ [DEBUG_TOOLS_ITEM] else FIXED_ITEMS)
   \<and> (DEBUG_TOOLS_ITEM \<in> set (SIDE_BAR_ITEMS env) \<longleftrightarrow> env = Some ''true'')
   \<and> BOTTOM_BAR_ITEMS env = FIXED_ITEMS
   \<and> (env \<noteq> Some ''true'' \<longrightarrow>
        SIDE_BAR_ITEMS env = FIXED_ITEMS \<and> BOTTOM_BAR_ITEMS env = FIXED_ITEMS)
   \<and> length FIXED_ITEMS = 3 \<and> DEBUG_TOOLS_ITEM \<notin> set FIXED_ITEMS"
  by (simp add: SIDE_BAR_ITEMS_def BOTTOM_BAR_ITEMS_def DEBUG_TOOLS_ITEM_def FIXED_ITEMS_def)

theorem nav_items_witness:
  "SIDE_BAR_ITEMS None = FIXED_ITEMS \<and> BOTTOM_BAR_ITEMS None = FIXED_ITEMS
   \<and> SIDE_BAR_ITEMS (Some ''false'') = FIXED_ITEMS
   \<and> length (SIDE_BAR_ITEMS (Some ''true'')) = 4"
  using nav_items [of None] nav_items [of "Some ''false''"] nav_items [of "Some ''true''"]
  by simp

end
